theory Spec2Isabelle
  imports Main
begin

section \<open>The code-execution runner of the contest platform\<close>

text \<open>
  A shallow embedding of the runner service: \<^verbatim>\<open>runner/src/executor.ts\<close>
  (\<^verbatim>\<open>processSubmission\<close>), \<^verbatim>\<open>runner/src/crypto.ts\<close> (\<^verbatim>\<open>createSigner\<close>),
  \<^verbatim>\<open>runner/src/registry.ts\<close> (\<^verbatim>\<open>registerRunner\<close>, \<^verbatim>\<open>heartbeat\<close>) and
  \<^verbatim>\<open>runner/src/index.ts\<close> (\<^verbatim>\<open>processJob\<close>, \<^verbatim>\<open>pollQueue\<close>, \<^verbatim>\<open>main\<close>).

  Everything outside the repository (the Docker daemon, the HTTP endpoint, the clock,
  Node's \<^verbatim>\<open>crypto\<close> module) is an explicit argument: a record that says, for each call
  the code makes, whether that call throws and what it returns. JavaScript numbers
  that hold milliseconds, bytes and status codes are integers here. A thrown value is
  either an \<^verbatim>\<open>Error\<close> with its message or some other value, because the code tests
  \<^verbatim>\<open>error instanceof Error\<close>.
\<close>

subsection \<open>Values\<close>

datatype thrown = Error string | NonError

text \<open>\<^verbatim>\<open>error instanceof Error ? error.message : 'Unknown error'\<close>\<close>

fun error_message :: "thrown \<Rightarrow> string" where
  "error_message (Error m) = m"
| "error_message NonError = ''Unknown error''"

text \<open>
  Object literals whose set of keys varies from one return statement to the next
  (\<^verbatim>\<open>ExecutionResult\<close> and what \<^verbatim>\<open>processJob\<close> posts) are lists of key and value, in
  the order the literal writes them. A key that is absent reads as \<^verbatim>\<open>undefined\<close>.
\<close>

datatype json = JStr string | JNum int | JArr "json list"

type_synonym js_object = "(string \<times> json) list"

definition field :: "js_object \<Rightarrow> string \<Rightarrow> json option" where
  "field obj k = map_of obj k"

datatype log_entry = LogInfo string | LogWarn string | LogError string thrown

subsection \<open>\<^verbatim>\<open>executor.ts\<close>: data\<close>

record SubmissionJob =
  submissionId :: string
  language :: string
  code :: string
  problemId :: string
  timeLimit :: int
  memoryLimit :: int

record RunnerConfig =
  runnerId :: string
  privateKey :: string
  publicKey :: string
  apiUrl :: string
  dockerSocket :: string
  concurrency :: int
  maxExecutionTime :: int
  maxMemory :: int
  networkDisabled :: bool

record lang_config =
  image :: string
  command :: "string list"
  fileName :: string

definition LANGUAGE_CONFIG :: "(string \<times> lang_config) list" where
  "LANGUAGE_CONFIG =
    [(''cpp'', \<lparr>image = ''codecontest/cpp-runner:latest'',
        command = [''/bin/sh'', ''-c'', ''g++ -O2 -std=c++17 -o main main.cpp && ./main''],
        fileName = ''main.cpp''\<rparr>),
     (''java'', \<lparr>image = ''codecontest/java-runner:latest'',
        command = [''/bin/sh'', ''-c'', ''javac Main.java && java Main''],
        fileName = ''Main.java''\<rparr>),
     (''python'', \<lparr>image = ''codecontest/python-runner:latest'',
        command = [''python3'', ''main.py''],
        fileName = ''main.py''\<rparr>),
     (''javascript'', \<lparr>image = ''codecontest/nodejs-runner:latest'',
        command = [''node'', ''main.js''],
        fileName = ''main.js''\<rparr>),
     (''go'', \<lparr>image = ''codecontest/go-runner:latest'',
        command = [''/bin/sh'', ''-c'', ''go build -o main main.go && ./main''],
        fileName = ''main.go''\<rparr>),
     (''rust'', \<lparr>image = ''codecontest/rust-runner:latest'',
        command = [''/bin/sh'', ''-c'', ''rustc -O -o main main.rs && ./main''],
        fileName = ''main.rs''\<rparr>)]"

text \<open>
  \<^verbatim>\<open>LANGUAGE_CONFIG[job.language]\<close> is a property read on an object literal, so it
  follows the prototype chain: a key that is not one of the six own keys but names a
  member of \<^verbatim>\<open>Object.prototype\<close> reads as that member (a function, or the prototype
  object for \<^verbatim>\<open>__proto__\<close>), which is truthy and has no \<^verbatim>\<open>image\<close>, \<^verbatim>\<open>command\<close> or
  \<^verbatim>\<open>fileName\<close>. Every other key reads as \<^verbatim>\<open>undefined\<close>.
\<close>

datatype js_property = Undefined | Own lang_config | Inherited

definition Object_prototype_keys :: "string list" where
  "Object_prototype_keys =
    [''constructor'', ''__defineGetter__'', ''__defineSetter__'', ''hasOwnProperty'',
     ''__lookupGetter__'', ''__lookupSetter__'', ''isPrototypeOf'',
     ''propertyIsEnumerable'', ''toString'', ''valueOf'', ''__proto__'',
     ''toLocaleString'']"

definition LANGUAGE_CONFIG_get :: "string \<Rightarrow> js_property" where
  "LANGUAGE_CONFIG_get key =
    (case map_of LANGUAGE_CONFIG key of
       Some lc \<Rightarrow> Own lc
     | None \<Rightarrow> if key \<in> set Object_prototype_keys then Inherited else Undefined)"

text \<open>\<^verbatim>\<open>langConfig.image\<close> and \<^verbatim>\<open>langConfig.command\<close>; \<^verbatim>\<open>None\<close> is \<^verbatim>\<open>undefined\<close>.\<close>

fun image_of :: "js_property \<Rightarrow> string option" where
  "image_of (Own lc) = Some (image lc)"
| "image_of _ = None"

fun command_of :: "js_property \<Rightarrow> string list option" where
  "command_of (Own lc) = Some (command lc)"
| "command_of _ = None"

record seccomp_profile =
  defaultAction :: string
  architectures :: "string list"
  syscalls :: "(string list \<times> string) list"

definition SECCOMP_PROFILE :: seccomp_profile where
  "SECCOMP_PROFILE =
    \<lparr>defaultAction = ''SCMP_ACT_ERRNO'',
     architectures = [''SCMP_ARCH_X86_64'', ''SCMP_ARCH_X86'', ''SCMP_ARCH_AARCH64''],
     syscalls =
      [([''read'', ''write'', ''open'', ''close'', ''exit'', ''exit_group''], ''SCMP_ACT_ALLOW''),
       ([''mmap'', ''munmap'', ''mprotect'', ''brk''], ''SCMP_ACT_ALLOW''),
       ([''execve'', ''execveat''], ''SCMP_ACT_ALLOW''),
       ([''access'', ''faccessat''], ''SCMP_ACT_ALLOW''),
       ([''stat'', ''fstat'', ''lstat'', ''newfstatat''], ''SCMP_ACT_ALLOW''),
       ([''getdents'', ''getdents64''], ''SCMP_ACT_ALLOW''),
       ([''clock_gettime'', ''gettimeofday'', ''time''], ''SCMP_ACT_ALLOW''),
       ([''arch_prctl'', ''set_tid_address'', ''set_robust_list''], ''SCMP_ACT_ALLOW''),
       ([''prlimit64'', ''getrlimit''], ''SCMP_ACT_ALLOW''),
       ([''sigaltstack'', ''rt_sigaction'', ''rt_sigprocmask''], ''SCMP_ACT_ALLOW''),
       ([''clone'', ''wait4'', ''waitpid''], ''SCMP_ACT_ALLOW''),
       ([''pipe'', ''pipe2'', ''dup'', ''dup2''], ''SCMP_ACT_ALLOW''),
       ([''fcntl'', ''ioctl''], ''SCMP_ACT_ALLOW''),
       ([''getpid'', ''getppid'', ''getpgrp'', ''getuid'', ''getgid''], ''SCMP_ACT_ALLOW''),
       ([''pread64'', ''pwrite64'', ''readv'', ''writev''], ''SCMP_ACT_ALLOW''),
       ([''lseek''], ''SCMP_ACT_ALLOW''),
       ([''uname''], ''SCMP_ACT_ALLOW''),
       ([''sysinfo''], ''SCMP_ACT_ALLOW''),
       ([''getrandom''], ''SCMP_ACT_ALLOW'')]\<rparr>"

text \<open>
  The second entry of \<^verbatim>\<open>SecurityOpt\<close> is the text \<^verbatim>\<open>seccomp=\<close> followed by
  \<^verbatim>\<open>JSON.stringify(SECCOMP_PROFILE)\<close>; it is kept as the profile it serialises.
\<close>

datatype security_opt = NoNewPrivileges | Seccomp seccomp_profile

record host_config =
  Memory :: int
  MemorySwap :: int
  CpuQuota :: int
  CpuPeriod :: int
  CpuShares :: int
  PidsLimit :: int
  NetworkMode :: string
  ReadonlyRootfs :: bool
  SecurityOpt :: "security_opt list"
  CapDrop :: "string list"
  CapAdd :: "string list"
  Tmpfs :: "(string \<times> string) list"

record create_options =
  Image :: "string option"
  name :: string
  Cmd :: "string list option"
  HostConfig :: host_config
  Env :: "string list"
  WorkingDir :: string
  AttachStdout :: bool
  AttachStderr :: bool

subsection \<open>The container runtime\<close>

text \<open>
  Every call \<^verbatim>\<open>processSubmission\<close> makes on Docker, and every timer it arms or clears,
  is appended to \<open>effects\<close>; \<open>containers\<close> holds the names of the containers that exist.
\<close>

datatype effect =
    CreateContainer create_options
  | PutArchive string string string
  | Start string
  | Logs string
  | SetTimeout int
  | Wait string
  | ClearTimeout
  | Stats string
  | GetContainer string
  | Remove string

record docker =
  containers :: "string set"
  effects :: "effect list"

definition call :: "effect \<Rightarrow> docker \<Rightarrow> docker" where
  "call e d = d\<lparr>effects := effects d @ [e]\<rparr>"

text \<open>
  One chunk of the log stream: \<open>first_byte\<close> is \<^verbatim>\<open>chunk[0]\<close> (\<open>None\<close> for an empty
  buffer) and \<open>as_text\<close> is \<^verbatim>\<open>chunk.toString('utf-8')\<close>.
\<close>

record chunk =
  first_byte :: "nat option"
  as_text :: string

text \<open>
  What the world does during one run of \<^verbatim>\<open>processSubmission\<close>. For a call that can
  throw, \<open>None\<close> (or \<open>Inr\<close>) is a normal return. \<open>wait_res\<close> is \<^verbatim>\<open>result.StatusCode\<close>;
  \<open>stats_res\<close> is \<^verbatim>\<open>stats.memory_stats?.usage\<close>, \<open>None\<close> when it is undefined.
  \<open>chunks\<close> are the \<^verbatim>\<open>data\<close> events delivered to the handler. \<open>remove_res\<close> is the
  removal at the end of the \<^verbatim>\<open>try\<close> block, \<open>cleanup_remove_res\<close> the one in the
  \<^verbatim>\<open>catch\<close> block. A kill by the timer is part of the world: it shows as
  \<open>wait_res = Inr 137\<close>.
\<close>

record sandbox_run =
  createContainer_res :: "thrown option"
  putArchive_res :: "thrown option"
  startTime :: int
  start_res :: "thrown option"
  logs_res :: "thrown option"
  chunks :: "chunk list"
  wait_res :: "thrown + int"
  endTime :: int
  stats_res :: "thrown + int option"
  remove_res :: "thrown option"
  cleanup_remove_res :: "thrown option"

subsection \<open>\<^verbatim>\<open>executor.ts\<close>: \<^verbatim>\<open>processSubmission\<close>\<close>

text \<open>\<^verbatim>\<open>s.includes(p)\<close>\<close>

fun starts_with :: "string \<Rightarrow> string \<Rightarrow> bool" where
  "starts_with [] s = True"
| "starts_with (p # ps) [] = False"
| "starts_with (p # ps) (c # cs) = (p = c \<and> starts_with ps cs)"

fun str_includes :: "string \<Rightarrow> string \<Rightarrow> bool" where
  "str_includes [] p = starts_with p []"
| "str_includes (c # cs) p = (starts_with p (c # cs) \<or> str_includes cs p)"

text \<open>
  The \<^verbatim>\<open>data\<close> handler: a chunk whose first byte is 1 goes to \<^verbatim>\<open>output\<close>, one whose
  first byte is 2 to \<^verbatim>\<open>errorOutput\<close>, each without its first eight characters.
\<close>

fun on_data :: "string \<times> string \<Rightarrow> chunk \<Rightarrow> string \<times> string" where
  "on_data (output, errorOutput) c =
    (if first_byte c = Some 1 then (output @ drop 8 (as_text c), errorOutput)
     else if first_byte c = Some 2 then (output, errorOutput @ drop 8 (as_text c))
     else (output, errorOutput))"

definition capture :: "chunk list \<Rightarrow> string \<times> string" where
  "capture cs = foldl on_data ([], []) cs"

definition container_options :: "js_property \<Rightarrow> string \<Rightarrow> RunnerConfig \<Rightarrow> create_options" where
  "container_options langConfig containerName config =
    \<lparr>Image = image_of langConfig,
     name = containerName,
     Cmd = command_of langConfig,
     HostConfig =
      \<lparr>Memory = maxMemory config,
       MemorySwap = maxMemory config,
       CpuQuota = 100000,
       CpuPeriod = 100000,
       CpuShares = 512,
       PidsLimit = 32,
       NetworkMode = (if networkDisabled config then ''none'' else ''bridge''),
       ReadonlyRootfs = True,
       SecurityOpt = [NoNewPrivileges, Seccomp SECCOMP_PROFILE],
       CapDrop = [''ALL''],
       CapAdd = [''CHOWN'', ''SETGID'', ''SETUID''],
       Tmpfs = [(''/tmp'', ''rw,noexec,nosuid,size=50m'')]\<rparr>,
     Env = [''LANG=C.UTF-8'', ''LC_ALL=C.UTF-8'', ''TZ=UTC'', ''PYTHONDONTWRITEBYTECODE=1'',
            ''NODE_ENV=production''],
     WorkingDir = ''/workspace'',
     AttachStdout = True,
     AttachStderr = True\<rparr>"

text \<open>Lines 188 to 204: the verdict and the score.\<close>

definition classify :: "int \<Rightarrow> int \<Rightarrow> int \<Rightarrow> SubmissionJob \<Rightarrow> string \<Rightarrow> string \<times> int" where
  "classify statusCode executionTime memoryUsed job errorOutput =
    (if statusCode = 137 \<or> executionTime > timeLimit job then (''TIME_LIMIT_EXCEEDED'', 0)
     else if memoryUsed > memoryLimit job * 1024 * 1024 then (''MEMORY_LIMIT_EXCEEDED'', 0)
     else if statusCode \<noteq> 0 then
       (if str_includes errorOutput ''Compilation error'' \<or> str_includes errorOutput ''SyntaxError''
        then (''COMPILATION_ERROR'', 0)
        else (''RUNTIME_ERROR'', 0))
     else (''ACCEPTED'', 100))"

text \<open>Lines 206 to 216: the result of a run that reached classification.\<close>

definition classified_result ::
  "SubmissionJob \<Rightarrow> int \<Rightarrow> int \<Rightarrow> int \<Rightarrow> string \<times> string \<Rightarrow> js_object" where
  "classified_result job statusCode executionTime memoryUsed captured =
    (let (verdict, score) = classify statusCode executionTime memoryUsed job (snd captured) in
     [(''submissionId'', JStr (submissionId job)),
      (''verdict'', JStr verdict),
      (''score'', JNum score),
      (''executionTime'', JNum executionTime),
      (''memoryUsed'', JNum memoryUsed),
      (''testCasesPassed'', JNum (if verdict = ''ACCEPTED'' then 1 else 0)),
      (''totalTestCases'', JNum 1),
      (''output'', JStr (take 10000 (fst captured))),
      (''error'', JStr (take 10000 (snd captured)))])"

text \<open>
  The \<^verbatim>\<open>try\<close> block, lines 110 to 216. It returns the result, or the value thrown
  by the first call that throws, with the runtime as that call left it. A call that
  throws changes nothing but the list of effects. \<^verbatim>\<open>memory_stats?.usage || 0\<close> is 0
  when the usage is undefined (and when it is 0).
\<close>

definition try_block ::
  "sandbox_run \<Rightarrow> js_property \<Rightarrow> SubmissionJob \<Rightarrow> RunnerConfig \<Rightarrow> docker
    \<Rightarrow> (thrown + js_object) \<times> docker" where
  "try_block w langConfig job config d0 =
    (let containerName = ''submission-'' @ submissionId job;
         d1 = call (CreateContainer (container_options langConfig containerName config)) d0 in
     case createContainer_res w of Some e \<Rightarrow> (Inl e, d1) | None \<Rightarrow>
    (let d2 = d1\<lparr>containers := insert containerName (containers d1)\<rparr>;
         d3 = call (PutArchive containerName (code job) ''/workspace'') d2 in
     case putArchive_res w of Some e \<Rightarrow> (Inl e, d3) | None \<Rightarrow>
    (let d4 = call (Start containerName) d3 in
     case start_res w of Some e \<Rightarrow> (Inl e, d4) | None \<Rightarrow>
    (let d5 = call (Logs containerName) d4 in
     case logs_res w of Some e \<Rightarrow> (Inl e, d5) | None \<Rightarrow>
    (let d6 = call (SetTimeout (timeLimit job + 2000)) d5;
         d7 = call (Wait containerName) d6 in
     case wait_res w of Inl e \<Rightarrow> (Inl e, d7) | Inr statusCode \<Rightarrow>
    (let d8 = call ClearTimeout d7;
         executionTime = endTime w - startTime w;
         d9 = call (Stats containerName) d8 in
     case stats_res w of Inl e \<Rightarrow> (Inl e, d9) | Inr usage \<Rightarrow>
    (let memoryUsed = (case usage of None \<Rightarrow> 0 | Some u \<Rightarrow> u);
         d10 = call (Remove containerName) d9 in
     case remove_res w of Some e \<Rightarrow> (Inl e, d10) | None \<Rightarrow>
    (let d11 = d10\<lparr>containers := containers d10 - {containerName}\<rparr> in
     (Inr (classified_result job statusCode executionTime memoryUsed (capture (chunks w))),
      d11)))))))))"

text \<open>
  The \<^verbatim>\<open>catch\<close> block, lines 217 to 230: the error is logged, the container is looked
  up by name and removed, a failure of that removal is swallowed, and the result is a
  \<^verbatim>\<open>SYSTEM_ERROR\<close> with the message of what was thrown.
\<close>

definition catch_block ::
  "sandbox_run \<Rightarrow> SubmissionJob \<Rightarrow> thrown \<Rightarrow> docker \<Rightarrow> js_object \<times> docker" where
  "catch_block w job err d0 =
    (let containerName = ''submission-'' @ submissionId job;
         d1 = call (GetContainer containerName) d0;
         d2 = call (Remove containerName) d1;
         d3 = (case cleanup_remove_res w of
                 Some e \<Rightarrow> d2
               | None \<Rightarrow> d2\<lparr>containers := containers d2 - {containerName}\<rparr>) in
     ([(''submissionId'', JStr (submissionId job)),
       (''verdict'', JStr ''SYSTEM_ERROR''),
       (''error'', JStr (error_message err))], d3))"

text \<open>
  \<^verbatim>\<open>processSubmission\<close>, lines 91 to 231. The guard of line 98 fires only when the
  lookup is \<^verbatim>\<open>undefined\<close>. The value of \<^verbatim>\<open>hashCode(job.code)\<close> in line 107 is never
  used and is left out. Every path returns a result: nothing is thrown to the caller.
\<close>

definition processSubmission ::
  "sandbox_run \<Rightarrow> docker \<Rightarrow> SubmissionJob \<Rightarrow> RunnerConfig \<Rightarrow> js_object \<times> docker" where
  "processSubmission w d job config =
    (let langConfig = LANGUAGE_CONFIG_get (language job) in
     if langConfig = Undefined then
       ([(''submissionId'', JStr (submissionId job)),
         (''verdict'', JStr ''SYSTEM_ERROR''),
         (''error'', JStr (''Unsupported language: '' @ language job))], d)
     else
       (case try_block w langConfig job config d of
          (Inr result, d') \<Rightarrow> (result, d')
        | (Inl err, d') \<Rightarrow> catch_block w job err d'))"

text \<open>The messages \<^verbatim>\<open>processSubmission\<close> logs: one error when the \<^verbatim>\<open>try\<close> block throws.\<close>

definition processSubmission_log ::
  "sandbox_run \<Rightarrow> docker \<Rightarrow> SubmissionJob \<Rightarrow> RunnerConfig \<Rightarrow> log_entry list" where
  "processSubmission_log w d job config =
    (let langConfig = LANGUAGE_CONFIG_get (language job) in
     if langConfig = Undefined then []
     else
       (case fst (try_block w langConfig job config d) of
          Inr result \<Rightarrow> []
        | Inl err \<Rightarrow> [LogError (''Execution failed for '' @ submissionId job @ '':'') err]))"

text \<open>The options of every \<^verbatim>\<open>createContainer\<close> call in a list of effects, in order.\<close>

fun created_options :: "effect list \<Rightarrow> create_options list" where
  "created_options [] = []"
| "created_options (CreateContainer opts # es) = opts # created_options es"
| "created_options (e # es) = created_options es"

text \<open>
  The \<^verbatim>\<open>try\<close> block runs to its end: no call after \<^verbatim>\<open>createContainer\<close> throws.
\<close>

definition try_completes :: "sandbox_run \<Rightarrow> bool" where
  "try_completes w =
    (putArchive_res w = None \<and> start_res w = None \<and> logs_res w = None \<and>
     (case wait_res w of Inl e \<Rightarrow> False | Inr s \<Rightarrow> True) \<and>
     (case stats_res w of Inl e \<Rightarrow> False | Inr u \<Rightarrow> True) \<and>
     remove_res w = None)"

subsection \<open>\<^verbatim>\<open>crypto.ts\<close>: \<^verbatim>\<open>createSigner\<close>\<close>

text \<open>
  Node's \<^verbatim>\<open>crypto\<close> module is a parameter. \<open>pk_sign alg key data\<close> is the raw
  signature of \<open>data\<close> under the private key \<open>key\<close> with the hash \<open>alg\<close>, or what is
  thrown for a key that cannot be used; \<open>pk_verify alg key data raw\<close> checks a raw
  signature under a public key; \<open>encode\<close> and \<open>decode\<close> convert raw bytes to and from
  the text of a named encoding. The \<^verbatim>\<open>Sign\<close> and \<^verbatim>\<open>Verify\<close> objects hold the
  algorithm they were created with and the data written to them.
\<close>

record crypto_lib =
  pk_sign :: "string \<Rightarrow> string \<Rightarrow> string \<Rightarrow> thrown + string"
  pk_verify :: "string \<Rightarrow> string \<Rightarrow> string \<Rightarrow> string \<Rightarrow> thrown + bool"
  encode :: "string \<Rightarrow> string \<Rightarrow> string"
  decode :: "string \<Rightarrow> string \<Rightarrow> string"

record hash_stream =
  algorithm :: string
  written :: string

definition createSign :: "string \<Rightarrow> hash_stream" where
  "createSign alg = \<lparr>algorithm = alg, written = []\<rparr>"

definition createVerify :: "string \<Rightarrow> hash_stream" where
  "createVerify alg = \<lparr>algorithm = alg, written = []\<rparr>"

definition stream_update :: "hash_stream \<Rightarrow> string \<Rightarrow> hash_stream" where
  "stream_update h data = h\<lparr>written := written h @ data\<rparr>"

definition Sign_sign :: "crypto_lib \<Rightarrow> hash_stream \<Rightarrow> string \<Rightarrow> string \<Rightarrow> thrown + string" where
  "Sign_sign lib h key enc =
    (case pk_sign lib (algorithm h) key (written h) of
       Inl e \<Rightarrow> Inl e
     | Inr raw \<Rightarrow> Inr (encode lib enc raw))"

definition Verify_verify ::
  "crypto_lib \<Rightarrow> hash_stream \<Rightarrow> string \<Rightarrow> string \<Rightarrow> string \<Rightarrow> thrown + bool" where
  "Verify_verify lib h key signature enc =
    pk_verify lib (algorithm h) key (written h) (decode lib enc signature)"

record Signer =
  sign :: "string \<Rightarrow> thrown + string"
  verify :: "string \<Rightarrow> string \<Rightarrow> string \<Rightarrow> thrown + bool"

definition createSigner :: "crypto_lib \<Rightarrow> string \<Rightarrow> Signer" where
  "createSigner lib key =
    \<lparr>sign = (\<lambda>data.
        Sign_sign lib (stream_update (createSign ''SHA256'') data) key ''base64''),
     verify = (\<lambda>data signature publicKey.
        Verify_verify lib (stream_update (createVerify ''SHA256'') data) publicKey signature
          ''base64'')\<rparr>"

text \<open>
  A key pair matches under a hash when, with that hash, the library signs every data
  with the private key and accepts the signature under the public key. Nothing is
  asked of other hashes: the library may refuse them. An encoding is faithful when
  decoding undoes encoding; other encodings of the library may lose information.
\<close>

definition matching_keypair :: "crypto_lib \<Rightarrow> string \<Rightarrow> string \<Rightarrow> string \<Rightarrow> bool" where
  "matching_keypair lib alg sk pk =
    (\<forall>data. \<exists>raw. pk_sign lib alg sk data = Inr raw \<and>
                   pk_verify lib alg pk data raw = Inr True)"

definition faithful_encoding :: "crypto_lib \<Rightarrow> string \<Rightarrow> bool" where
  "faithful_encoding lib enc = (\<forall>raw. decode lib enc (encode lib enc raw) = raw)"

subsection \<open>The worker process\<close>

text \<open>
  The module-level state of \<^verbatim>\<open>index.ts\<close> and what the process has done so far:
  the keys of the \<^verbatim>\<open>activeContainers\<close> map, the container runtime, the HTTP requests
  sent, the log, the jobs for which \<^verbatim>\<open>processJob\<close> was started, the intervals set,
  and the exit status once \<^verbatim>\<open>process.exit\<close> was called. The module constants
  \<^verbatim>\<open>RUNNER_ID\<close> and \<^verbatim>\<open>CONCURRENCY\<close> are \<open>runnerId config\<close> and \<open>concurrency config\<close>,
  and \<^verbatim>\<open>signer\<close> is \<open>createSigner lib (privateKey config)\<close>.
\<close>

record http_request =
  url :: string
  http_method :: string
  headers :: "(string \<times> string) list"
  body :: "js_object option"

record http_response =
  status :: nat
  json_body :: "thrown + SubmissionJob"

definition ok :: "http_response \<Rightarrow> bool" where
  "ok response = (200 \<le> status response \<and> status response \<le> 299)"

datatype task = Heartbeat | PollQueue

record worker =
  activeContainers :: "string list"
  runtime :: docker
  requests :: "http_request list"
  log :: "log_entry list"
  started :: "SubmissionJob list"
  intervals :: "(task \<times> int) list"
  exit_status :: "int option"

definition logged :: "log_entry \<Rightarrow> worker \<Rightarrow> worker" where
  "logged e ws = ws\<lparr>log := log ws @ [e]\<rparr>"

definition sent :: "http_request \<Rightarrow> worker \<Rightarrow> worker" where
  "sent r ws = ws\<lparr>requests := requests ws @ [r]\<rparr>"

text \<open>A number inside a template literal.\<close>

function string_of_nat :: "nat \<Rightarrow> string" where
  "string_of_nat n =
    (if n < 10 then [''0123456789'' ! n]
     else string_of_nat (n div 10) @ [''0123456789'' ! (n mod 10)])"
  by pat_completeness auto
termination
  by (relation "measure id") auto

declare string_of_nat.simps [simp del]

subsection \<open>\<^verbatim>\<open>registry.ts\<close>\<close>

text \<open>
  \<^verbatim>\<open>registerRunner\<close> and \<^verbatim>\<open>heartbeat\<close> take the outcome of their \<^verbatim>\<open>fetch\<close>: the
  value thrown, or the response. They return what they throw (\<open>None\<close> for a normal
  return) and the worker as they leave it.
\<close>

definition registerRunner ::
  "(thrown + http_response) \<Rightarrow> string \<Rightarrow> RunnerConfig \<Rightarrow> worker \<Rightarrow> thrown option \<times> worker" where
  "registerRunner fetch_res runnerId' config ws =
    (let ws1 = sent \<lparr>url = apiUrl config @ ''/api/runner/register'', http_method = ''POST'',
                      headers = [(''Content-Type'', ''application/json'')],
                      body = Some [(''runnerId'', JStr runnerId'),
                                   (''publicKey'', JStr (publicKey config)),
                                   (''capabilities'', JArr [JStr ''cpp'', JStr ''java'',
                                      JStr ''python'', JStr ''javascript'', JStr ''go'',
                                      JStr ''rust'']),
                                   (''maxConcurrency'', JNum (concurrency config))]\<rparr> ws in
     case fetch_res of
       Inl err \<Rightarrow> (Some err, logged (LogError ''Failed to register runner:'' err) ws1)
     | Inr response \<Rightarrow>
         if \<not> ok response then
           (let err = Error (''Failed to register: '' @ string_of_nat (status response)) in
            (Some err, logged (LogError ''Failed to register runner:'' err) ws1))
         else
           (None, logged (LogInfo (''Runner '' @ runnerId' @ '' registered successfully'')) ws1))"


subsection \<open>\<^verbatim>\<open>index.ts\<close>\<close>

text \<open>
  What the world does during one run of \<^verbatim>\<open>processJob\<close>: the sandbox run, the outcome
  of the \<^verbatim>\<open>fetch\<close> that posts the signed result, and the outcome of the \<^verbatim>\<open>fetch\<close> in
  the \<^verbatim>\<open>catch\<close> block. \<^verbatim>\<open>JSON.stringify\<close> of a result is the parameter \<open>stringify\<close>.
\<close>

record job_run =
  sandbox :: sandbox_run
  result_post_res :: "thrown option"
  error_post_res :: "thrown option"

text \<open>\<^verbatim>\<open>result.verdict\<close> inside the template literal of the log message.\<close>

definition verdict_text :: "js_object \<Rightarrow> string" where
  "verdict_text result =
    (case field result ''verdict'' of Some (JStr v) \<Rightarrow> v | _ \<Rightarrow> ''undefined'')"

text \<open>
  The \<^verbatim>\<open>catch\<close> block of \<^verbatim>\<open>processJob\<close>, lines 63 to 78: the body it posts has three
  keys and the request has no \<^verbatim>\<open>X-Runner-Signature\<close> header. If this \<^verbatim>\<open>fetch\<close>
  throws, \<^verbatim>\<open>processJob\<close> throws.
\<close>

definition processJob_catch ::
  "job_run \<Rightarrow> SubmissionJob \<Rightarrow> RunnerConfig \<Rightarrow> thrown \<Rightarrow> worker \<Rightarrow> thrown option \<times> worker" where
  "processJob_catch jr job config err ws =
    (let ws1 = logged (LogError (''Failed to process submission '' @ submissionId job @ '':'') err) ws;
         ws2 = sent \<lparr>url = apiUrl config @ ''/api/runner/result'', http_method = ''POST'',
                      headers = [(''Content-Type'', ''application/json''),
                                 (''X-Runner-ID'', runnerId config)],
                      body = Some [(''submissionId'', JStr (submissionId job)),
                                   (''verdict'', JStr ''SYSTEM_ERROR''),
                                   (''error'', JStr (error_message err))]\<rparr> ws1 in
     (error_post_res jr, ws2))"

text \<open>
  \<^verbatim>\<open>processJob\<close>, lines 40 to 79. \<^verbatim>\<open>{...result, runnerId, signature}\<close> adds two keys
  that no result of \<^verbatim>\<open>processSubmission\<close> has.
\<close>

definition processJob ::
  "crypto_lib \<Rightarrow> (js_object \<Rightarrow> string) \<Rightarrow> job_run \<Rightarrow> SubmissionJob \<Rightarrow> RunnerConfig \<Rightarrow> worker
    \<Rightarrow> thrown option \<times> worker" where
  "processJob lib stringify jr job config ws =
    (let (result, d') = processSubmission (sandbox jr) (runtime ws) job config;
         ws1 = ws\<lparr>runtime := d',
                  log := log ws @ processSubmission_log (sandbox jr) (runtime ws) job config\<rparr> in
     case sign (createSigner lib (privateKey config)) (stringify result) of
       Inl err \<Rightarrow> processJob_catch jr job config err ws1
     | Inr signature \<Rightarrow>
        (let signedResult = result @ [(''runnerId'', JStr (runnerId config)),
                                      (''signature'', JStr signature)];
             ws2 = sent \<lparr>url = apiUrl config @ ''/api/runner/result'', http_method = ''POST'',
                          headers = [(''Content-Type'', ''application/json''),
                                     (''X-Runner-ID'', runnerId config),
                                     (''X-Runner-Signature'', signature)],
                          body = Some signedResult\<rparr> ws1 in
         case result_post_res jr of
           Some err \<Rightarrow> processJob_catch jr job config err ws2
         | None \<Rightarrow>
            (None, logged (LogInfo (''Submission '' @ submissionId job @ '' processed: '' @
                                     verdict_text result)) ws2)))"

text \<open>
  \<^verbatim>\<open>pollQueue\<close>, lines 81 to 108, with the outcome of its \<^verbatim>\<open>fetch\<close>. The call
  \<^verbatim>\<open>processJob(job)\<close> is not awaited: the job is recorded as started, and \<open>processJob\<close>
  says what the started call does.
\<close>

definition pollQueue ::
  "crypto_lib \<Rightarrow> (thrown + http_response) \<Rightarrow> RunnerConfig \<Rightarrow> worker \<Rightarrow> worker" where
  "pollQueue lib fetch_res config ws =
    (case sign (createSigner lib (privateKey config)) ''job-request'' of
       Inl err \<Rightarrow> logged (LogError ''Failed to poll queue:'' err) ws
     | Inr signature \<Rightarrow>
        (let ws1 = sent \<lparr>url = apiUrl config @ ''/api/runner/job'', http_method = ''GET'',
                          headers = [(''X-Runner-ID'', runnerId config),
                                     (''X-Runner-Signature'', signature)],
                          body = None\<rparr> ws in
         case fetch_res of
           Inl err \<Rightarrow> logged (LogError ''Failed to poll queue:'' err) ws1
         | Inr response \<Rightarrow>
            if \<not> ok response then
              (if status response \<noteq> 204
               then logged (LogWarn (''Failed to fetch job: '' @ string_of_nat (status response))) ws1
               else ws1)
            else
              (case json_body response of
                 Inl err \<Rightarrow> logged (LogError ''Failed to poll queue:'' err) ws1
               | Inr job \<Rightarrow>
                  if int (length (activeContainers ws1)) \<ge> concurrency config
                  then logged (LogWarn ''Max concurrency reached, skipping job'') ws1
                  else ws1\<lparr>started := started ws1 @ [job]\<rparr>)))"

text \<open>\<^verbatim>\<open>main\<close>, lines 110 to 119, with the outcome of the registration \<^verbatim>\<open>fetch\<close>.\<close>

definition main :: "(thrown + http_response) \<Rightarrow> RunnerConfig \<Rightarrow> worker \<Rightarrow> thrown option \<times> worker" where
  "main register_res config ws =
    (let ws1 = logged (LogInfo (''Starting runner '' @ runnerId config @ ''...'')) ws in
     case registerRunner register_res (runnerId config) config ws1 of
       (Some err, ws2) \<Rightarrow> (Some err, ws2)
     | (None, ws2) \<Rightarrow>
        (let ws3 = ws2\<lparr>intervals := intervals ws2 @ [(Heartbeat, 30000), (PollQueue, 1000)]\<rparr> in
         (None, logged (LogInfo (''Runner '' @ runnerId config @ '' started with concurrency '' @
                          (if concurrency config < 0
                           then ''-'' @ string_of_nat (nat (- concurrency config))
                           else string_of_nat (nat (concurrency config))))) ws3)))"



text \<open>Whether the registration request got a response with a 2xx status.\<close>

definition registered :: "(thrown + http_response) \<Rightarrow> bool" where
  "registered register_res = (case register_res of Inl err \<Rightarrow> False | Inr response \<Rightarrow> ok response)"

subsection \<open>Concrete inputs\<close>

text \<open>
  The inputs at which the theorems below are evaluated: the job of the specification's
  first scenario, the default configuration, an empty runtime and an idle worker.
\<close>

definition job0 :: SubmissionJob where
  "job0 = \<lparr>submissionId = ''42'', language = ''python'', code = ''print(1+1)'',
           problemId = ''p1'', timeLimit = 2000, memoryLimit = 256\<rparr>"

definition config0 :: RunnerConfig where
  "config0 = \<lparr>runnerId = ''runner-1'', privateKey = ''sk'', publicKey = ''pk'',
     apiUrl = ''http://localhost:3000'', dockerSocket = ''/var/run/docker.sock'',
     concurrency = 4, maxExecutionTime = 10000, maxMemory = 536870912,
     networkDisabled = True\<rparr>"

definition docker0 :: docker where
  "docker0 = \<lparr>containers = {}, effects = []\<rparr>"

definition worker0 :: worker where
  "worker0 = \<lparr>activeContainers = [], runtime = docker0, requests = [], log = [],
     started = [], intervals = [], exit_status = None\<rparr>"

text \<open>A run in which every call returns and the program prints 2 and exits with 0.\<close>

definition accepted_run :: sandbox_run where
  "accepted_run = \<lparr>createContainer_res = None, putArchive_res = None, startTime = 1000,
     start_res = None, logs_res = None,
     chunks = [\<lparr>first_byte = Some 1, as_text = ''hhhhhhhh2''\<rparr>],
     wait_res = Inr 0, endTime = 1150, stats_res = Inr (Some 8000000),
     remove_res = None, cleanup_remove_res = None\<rparr>"

text \<open>A run in which the interpreter reports a syntax error and exits with 1.\<close>

definition syntax_error_run :: sandbox_run where
  "syntax_error_run = accepted_run
     \<lparr>chunks := [\<lparr>first_byte = Some 2, as_text = ''hhhhhhhhSyntaxError: invalid syntax''\<rparr>],
      wait_res := Inr 1\<rparr>"

text \<open>
  A run in which the connection to the Docker daemon is lost while the container runs:
  \<^verbatim>\<open>container.wait()\<close> throws, and so does the removal in the \<^verbatim>\<open>catch\<close> block.
\<close>

definition lost_daemon_run :: sandbox_run where
  "lost_daemon_run = accepted_run
     \<lparr>wait_res := Inl (Error ''connect ECONNREFUSED /var/run/docker.sock''),
      cleanup_remove_res := Some (Error ''connect ECONNREFUSED /var/run/docker.sock'')\<rparr>"

text \<open>
  Three instances of the \<^verbatim>\<open>crypto\<close> parameter. In the first a signature is the
  algorithm, the key and the data written out, and an encoding changes nothing. In
  the second the private key cannot be parsed, so signing throws. The third refuses
  every hash but \<^verbatim>\<open>SHA256\<close>, as a library does for a digest it does not know, its
  \<^verbatim>\<open>base64\<close> writes the bytes in reverse order, and every other encoding of it loses
  its input.
\<close>

definition transparent_crypto :: crypto_lib where
  "transparent_crypto =
    \<lparr>pk_sign = (\<lambda>alg key data. Inr (alg @ '':'' @ key @ '':'' @ data)),
     pk_verify = (\<lambda>alg key data raw. Inr (raw = alg @ '':'' @ key @ '':'' @ data)),
     encode = (\<lambda>enc raw. raw),
     decode = (\<lambda>enc txt. txt)\<rparr>"

definition unusable_key_crypto :: crypto_lib where
  "unusable_key_crypto = transparent_crypto
    \<lparr>pk_sign := (\<lambda>alg key data. Inl (Error ''error:1E08010C:DECODER routines::unsupported''))\<rparr>"

definition strict_crypto :: crypto_lib where
  "strict_crypto =
    \<lparr>pk_sign = (\<lambda>alg key data.
        if alg = ''SHA256'' then Inr (alg @ '':'' @ key @ '':'' @ data)
        else Inl (Error ''Invalid digest'')),
     pk_verify = (\<lambda>alg key data raw.
        if alg = ''SHA256'' then Inr (raw = alg @ '':'' @ key @ '':'' @ data)
        else Inl (Error ''Invalid digest'')),
     encode = (\<lambda>enc raw. if enc = ''base64'' then rev raw else []),
     decode = (\<lambda>enc txt. if enc = ''base64'' then rev txt else [])\<rparr>"

definition delivered :: job_run where
  "delivered = \<lparr>sandbox = accepted_run, result_post_res = None, error_post_res = None\<rparr>"

text \<open>The queue answers a poll with status 200 and a job.\<close>

definition job_response :: "SubmissionJob \<Rightarrow> thrown + http_response" where
  "job_response job = Inr \<lparr>status = 200, json_body = Inr job\<rparr>"


text \<open>Whether the verdict and the test-case counters of a result agree with the closed set.\<close>

definition verdict_ok :: "js_object \<Rightarrow> bool" where
  "verdict_ok r =
    (field r ''verdict'' \<in> {Some (JStr ''SYSTEM_ERROR''), Some (JStr ''TIME_LIMIT_EXCEEDED''),
        Some (JStr ''MEMORY_LIMIT_EXCEEDED''), Some (JStr ''COMPILATION_ERROR''),
        Some (JStr ''RUNTIME_ERROR''), Some (JStr ''ACCEPTED'')} \<and>
     field r ''verdict'' \<noteq> Some (JStr ''WRONG_ANSWER'') \<and>
     ((field r ''testCasesPassed'' = Some (JNum 1) \<and> field r ''totalTestCases'' = Some (JNum 1))
       = (field r ''verdict'' = Some (JStr ''ACCEPTED''))))"

section \<open>Properties\<close>

subsection \<open>Auxiliary facts\<close>

lemma starts_with_iff: "starts_with p s = (\<exists>b. s = p @ b)"
  by (induction p s rule: starts_with.induct) auto

text \<open>\<open>str_includes s p\<close> holds exactly when \<open>p\<close> occurs in \<open>s\<close>.\<close>

lemma str_includes_iff: "str_includes s p = (\<exists>a b. s = a @ p @ b)"
proof (induction s)
  case Nil
  then show ?case by (simp add: starts_with_iff)
next
  case (Cons c cs)
  show ?case
  proof
    assume "str_includes (c # cs) p"
    then consider "starts_with p (c # cs)" | "str_includes cs p" by auto
    then show "\<exists>a b. c # cs = a @ p @ b"
    proof cases
      case 1
      then obtain b where "c # cs = p @ b" by (auto simp: starts_with_iff)
      then have "c # cs = [] @ p @ b" by simp
      then show ?thesis by blast
    next
      case 2
      then obtain a b where "cs = a @ p @ b" using Cons.IH by auto
      then have "c # cs = (c # a) @ p @ b" by simp
      then show ?thesis by blast
    qed
  next
    assume "\<exists>a b. c # cs = a @ p @ b"
    then obtain a b where ab: "c # cs = a @ p @ b" by blast
    show "str_includes (c # cs) p"
    proof (cases a)
      case Nil
      with ab have "starts_with p (c # cs)" by (auto simp: starts_with_iff)
      then show ?thesis by simp
    next
      case (Cons x a')
      with ab have "cs = a' @ p @ b" by simp
      then have "str_includes cs p" using Cons.IH by blast
      then show ?thesis by simp
    qed
  qed
qed

lemma job0_language:
  "LANGUAGE_CONFIG_get (language job0) =
     Own \<lparr>image = ''codecontest/python-runner:latest'', command = [''python3'', ''main.py''],
          fileName = ''main.py''\<rparr>"
  by (simp add: job0_def LANGUAGE_CONFIG_get_def LANGUAGE_CONFIG_def)

lemma created_options_append:
  "created_options (es @ fs) = created_options es @ created_options fs"
  by (induction es rule: created_options.induct) simp_all

lemma classified_result_fields:
  "field (classified_result job s t m cap) ''verdict'' =
     Some (JStr (fst (classify s t m job (snd cap))))"
  "field (classified_result job s t m cap) ''score'' =
     Some (JNum (snd (classify s t m job (snd cap))))"
  "field (classified_result job s t m cap) ''testCasesPassed'' =
     Some (JNum (if fst (classify s t m job (snd cap)) = ''ACCEPTED'' then 1 else 0))"
  "field (classified_result job s t m cap) ''totalTestCases'' = Some (JNum 1)"
  by (simp_all add: classified_result_def field_def Let_def case_prod_beta)

lemma catch_block_fields:
  "field (fst (catch_block w job err d)) ''verdict'' = Some (JStr ''SYSTEM_ERROR'')"
  "field (fst (catch_block w job err d)) ''testCasesPassed'' = None"
  "field (fst (catch_block w job err d)) ''totalTestCases'' = None"
  by (simp_all add: catch_block_def field_def Let_def)

text \<open>A result of the \<^verbatim>\<open>try\<close> block is always built by lines 206 to 216.\<close>

lemma try_block_Inr:
  "fst (try_block w lc job config d) = Inr r \<Longrightarrow>
   \<exists>s t m. r = classified_result job s t m (capture (chunks w))"
  by (auto simp: try_block_def Let_def split: option.splits sum.splits)

lemma try_block_ok:
  assumes "createContainer_res w = None" "putArchive_res w = None" "start_res w = None"
    "logs_res w = None" "wait_res w = Inr st" "stats_res w = Inr usage" "remove_res w = None"
  shows "fst (try_block w lc job config d) =
     Inr (classified_result job st (endTime w - startTime w)
       (case usage of None \<Rightarrow> 0 | Some u \<Rightarrow> u) (capture (chunks w)))"
  using assms by (simp add: try_block_def Let_def)

lemma processSubmission_ok:
  assumes "LANGUAGE_CONFIG_get (language job) \<noteq> Undefined"
    "createContainer_res w = None" "putArchive_res w = None" "start_res w = None"
    "logs_res w = None" "wait_res w = Inr st" "stats_res w = Inr usage" "remove_res w = None"
  shows "fst (processSubmission w d job config) =
     classified_result job st (endTime w - startTime w)
       (case usage of None \<Rightarrow> 0 | Some u \<Rightarrow> u) (capture (chunks w))"
proof -
  obtain x d' where t: "try_block w (LANGUAGE_CONFIG_get (language job)) job config d = (x, d')"
    by (cases "try_block w (LANGUAGE_CONFIG_get (language job)) job config d")
  with try_block_ok[OF assms(2-), of "LANGUAGE_CONFIG_get (language job)" job config d]
  have "x = Inr (classified_result job st (endTime w - startTime w)
       (case usage of None \<Rightarrow> 0 | Some u \<Rightarrow> u) (capture (chunks w)))" by simp
  with t assms(1) show ?thesis by (simp add: processSubmission_def)
qed

text \<open>For a language whose lookup is \<^verbatim>\<open>undefined\<close> the runtime is not touched.\<close>

lemma processSubmission_undefined:
  "LANGUAGE_CONFIG_get (language job) = Undefined \<Longrightarrow>
   processSubmission w d job config =
     ([(''submissionId'', JStr (submissionId job)), (''verdict'', JStr ''SYSTEM_ERROR''),
       (''error'', JStr (''Unsupported language: '' @ language job))], d)"
  by (simp add: processSubmission_def)

lemma try_block_created:
  "created_options (effects (snd (try_block w lc job config d))) =
   created_options (effects d) @ [container_options lc (''submission-'' @ submissionId job) config]"
  by (simp add: try_block_def call_def Let_def created_options_append
      split: option.splits sum.splits)

lemma catch_block_created:
  "created_options (effects (snd (catch_block w job err d))) = created_options (effects d)"
  by (simp add: catch_block_def call_def Let_def created_options_append split: option.splits)

lemma processSubmission_created:
  assumes "LANGUAGE_CONFIG_get (language job) \<noteq> Undefined"
  shows "created_options (effects (snd (processSubmission w d job config))) =
   created_options (effects d) @
     [container_options (LANGUAGE_CONFIG_get (language job)) (''submission-'' @ submissionId job)
        config]"
proof -
  obtain x d' where t: "try_block w (LANGUAGE_CONFIG_get (language job)) job config d = (x, d')"
    by (cases "try_block w (LANGUAGE_CONFIG_get (language job)) job config d")
  have c: "created_options (effects d') = created_options (effects d) @
     [container_options (LANGUAGE_CONFIG_get (language job)) (''submission-'' @ submissionId job)
        config]"
    using try_block_created[of w "LANGUAGE_CONFIG_get (language job)" job config d] t by simp
  show ?thesis
  proof (cases x)
    case (Inl e)
    with t assms c show ?thesis by (simp add: processSubmission_def catch_block_created)
  next
    case (Inr r)
    with t assms c show ?thesis by (simp add: processSubmission_def)
  qed
qed

lemma try_block_effects:
  "\<exists>new. effects (snd (try_block w lc job config d)) = effects d @ new \<and>
     (createContainer_res w = None \<and> try_completes w \<longrightarrow>
        Remove (''submission-'' @ submissionId job) \<in> set new)"
  by (simp add: try_block_def call_def Let_def try_completes_def split: option.splits sum.splits)

lemma try_block_completes:
  assumes "createContainer_res w = None" "try_completes w"
  shows "(\<exists>r. fst (try_block w lc job config d) = Inr r) \<and>
     containers (snd (try_block w lc job config d)) =
       containers d - {''submission-'' @ submissionId job}"
  using assms
  by (auto simp: try_block_def call_def Let_def try_completes_def split: option.splits sum.splits)

lemma try_block_throws:
  assumes "createContainer_res w = None" "\<not> try_completes w"
  shows "(\<exists>e. fst (try_block w lc job config d) = Inl e) \<and>
     containers (snd (try_block w lc job config d)) =
       insert (''submission-'' @ submissionId job) (containers d)"
  using assms
  by (auto simp: try_block_def call_def Let_def try_completes_def split: option.splits sum.splits)

lemma catch_block_effects:
  "effects (snd (catch_block w job err d)) =
     effects d @ [GetContainer (''submission-'' @ submissionId job),
                  Remove (''submission-'' @ submissionId job)]"
  by (simp add: catch_block_def call_def Let_def split: option.splits)

lemma catch_block_containers:
  "containers (snd (catch_block w job err d)) =
     (if cleanup_remove_res w = None then containers d - {''submission-'' @ submissionId job}
      else containers d)"
  by (simp add: catch_block_def call_def Let_def split: option.splits)

lemma processSubmission_removal:
  assumes "LANGUAGE_CONFIG_get (language job) \<noteq> Undefined"
    and "createContainer_res w = None"
  shows "Remove (''submission-'' @ submissionId job)
           \<in> set (drop (length (effects d)) (effects (snd (processSubmission w d job config))))"
    and "(''submission-'' @ submissionId job \<in> containers (snd (processSubmission w d job config)))
          = (\<not> try_completes w \<and> cleanup_remove_res w \<noteq> None)"
proof -
  let ?n = "''submission-'' @ submissionId job"
  let ?lc = "LANGUAGE_CONFIG_get (language job)"
  obtain x d' where t: "try_block w ?lc job config d = (x, d')"
    by (cases "try_block w ?lc job config d")
  obtain new where new: "effects d' = effects d @ new"
    and rem: "createContainer_res w = None \<and> try_completes w \<longrightarrow> Remove ?n \<in> set new"
    using try_block_effects[of w ?lc job config d] t by auto
  show "Remove ?n \<in> set (drop (length (effects d)) (effects (snd (processSubmission w d job config))))"
  proof (cases "try_completes w")
    case True
    then obtain r where "x = Inr r"
      using try_block_completes[OF assms(2) True, of ?lc job config d] t by auto
    with t assms(1) have "snd (processSubmission w d job config) = d'"
      by (simp add: processSubmission_def)
    with new rem True assms(2) show ?thesis by simp
  next
    case False
    then obtain e where "x = Inl e"
      using try_block_throws[OF assms(2) False, of ?lc job config d] t by auto
    with t assms(1) have "snd (processSubmission w d job config) = snd (catch_block w job e d')"
      by (simp add: processSubmission_def)
    then show ?thesis by (simp add: catch_block_effects new)
  qed
  show "(?n \<in> containers (snd (processSubmission w d job config)))
          = (\<not> try_completes w \<and> cleanup_remove_res w \<noteq> None)"
  proof (cases "try_completes w")
    case True
    from try_block_completes[OF assms(2) True, of ?lc job config d] t
    obtain r where "x = Inr r" and c: "containers d' = containers d - {?n}" by auto
    with t assms(1) have "snd (processSubmission w d job config) = d'"
      by (simp add: processSubmission_def)
    with c True show ?thesis by simp
  next
    case False
    from try_block_throws[OF assms(2) False, of ?lc job config d] t
    obtain e where "x = Inl e" and c: "containers d' = insert ?n (containers d)" by auto
    with t assms(1) have "snd (processSubmission w d job config) = snd (catch_block w job e d')"
      by (simp add: processSubmission_def)
    with c False show ?thesis by (simp add: catch_block_containers)
  qed
qed

lemma classify_cases:
  "classify s t m job e \<in> {(''TIME_LIMIT_EXCEEDED'', 0), (''MEMORY_LIMIT_EXCEEDED'', 0),
     (''COMPILATION_ERROR'', 0), (''RUNTIME_ERROR'', 0), (''ACCEPTED'', 100)}"
  by (simp add: classify_def)

lemma verdict_ok_classified: "verdict_ok (classified_result job s t m cap)"
proof -
  from classify_cases[of s t m job "snd cap"]
  consider "classify s t m job (snd cap) = (''TIME_LIMIT_EXCEEDED'', 0)"
    | "classify s t m job (snd cap) = (''MEMORY_LIMIT_EXCEEDED'', 0)"
    | "classify s t m job (snd cap) = (''COMPILATION_ERROR'', 0)"
    | "classify s t m job (snd cap) = (''RUNTIME_ERROR'', 0)"
    | "classify s t m job (snd cap) = (''ACCEPTED'', 100)"
    by auto
  then show ?thesis
    by cases (simp_all add: verdict_ok_def classified_result_fields)
qed

lemma verdict_ok_catch: "verdict_ok (fst (catch_block w job err d))"
  by (simp add: verdict_ok_def catch_block_fields)

lemma verdict_ok_unsupported:
  "verdict_ok [(''submissionId'', JStr i), (''verdict'', JStr ''SYSTEM_ERROR''), (''error'', JStr e)]"
  by (simp add: verdict_ok_def field_def)

lemma verdict_ok_processSubmission: "verdict_ok (fst (processSubmission w d job config))"
proof (cases "LANGUAGE_CONFIG_get (language job) = Undefined")
  case True
  then show ?thesis by (simp add: processSubmission_def verdict_ok_unsupported)
next
  case False
  obtain x d' where t: "try_block w (LANGUAGE_CONFIG_get (language job)) job config d = (x, d')"
    by (cases "try_block w (LANGUAGE_CONFIG_get (language job)) job config d")
  show ?thesis
  proof (cases x)
    case (Inl e)
    with t False show ?thesis by (simp add: processSubmission_def verdict_ok_catch)
  next
    case (Inr r)
    with t have "fst (try_block w (LANGUAGE_CONFIG_get (language job)) job config d) = Inr r"
      by simp
    from try_block_Inr[OF this]
    obtain s tm m where "r = classified_result job s tm m (capture (chunks w))" by blast
    with t False Inr show ?thesis by (simp add: processSubmission_def verdict_ok_classified)
  qed
qed

lemma processSubmission_thrown:
  assumes "LANGUAGE_CONFIG_get (language job) \<noteq> Undefined"
    and "fst (try_block w (LANGUAGE_CONFIG_get (language job)) job config d) = Inl e"
  shows "processSubmission w d job config =
     catch_block w job e (snd (try_block w (LANGUAGE_CONFIG_get (language job)) job config d))"
proof -
  obtain x d' where t: "try_block w (LANGUAGE_CONFIG_get (language job)) job config d = (x, d')"
    by (cases "try_block w (LANGUAGE_CONFIG_get (language job)) job config d")
  with assms show ?thesis by (simp add: processSubmission_def)
qed

subsection \<open>Classification\<close>

text \<open>
  Claim C2. For a job whose language is one of the six configured languages, and a
  run in which no Docker call throws, the verdict is decided in this order. First, an
  exit status of 137 or a measured wall-clock time above \<open>timeLimit job\<close> gives
  \<^verbatim>\<open>TIME_LIMIT_EXCEEDED\<close>. Second, a measured memory use above \<open>memoryLimit job\<close>
  megabytes gives \<^verbatim>\<open>MEMORY_LIMIT_EXCEEDED\<close>. Third, a nonzero exit status gives
  \<^verbatim>\<open>COMPILATION_ERROR\<close> when the captured standard error contains
  \<^verbatim>\<open>Compilation error\<close> or \<^verbatim>\<open>SyntaxError\<close>, and \<^verbatim>\<open>RUNTIME_ERROR\<close> otherwise.
  Fourth, an exit status of zero gives \<^verbatim>\<open>ACCEPTED\<close> with score 100. Each case
  applies only when no earlier one does.
\<close>

theorem classification_priority:
  assumes "LANGUAGE_CONFIG_get (language job) = Own lc"
    and "createContainer_res w = None" "putArchive_res w = None" "start_res w = None"
      "logs_res w = None" "wait_res w = Inr exitStatus" "stats_res w = Inr usage"
      "remove_res w = None"
  shows "(let r = fst (processSubmission w d job config);
              wallTime = endTime w - startTime w;
              peakMemory = (case usage of None \<Rightarrow> 0 | Some u \<Rightarrow> u);
              stderr = snd (capture (chunks w));
              killedOrLate = (exitStatus = 137 \<or> wallTime > timeLimit job);
              overMemory = (peakMemory > memoryLimit job * 1024 * 1024);
              syntaxError = (str_includes stderr ''Compilation error'' \<or>
                             str_includes stderr ''SyntaxError'') in
          (killedOrLate \<longrightarrow> field r ''verdict'' = Some (JStr ''TIME_LIMIT_EXCEEDED'')) \<and>
          (\<not> killedOrLate \<and> overMemory \<longrightarrow>
             field r ''verdict'' = Some (JStr ''MEMORY_LIMIT_EXCEEDED'')) \<and>
          (\<not> killedOrLate \<and> \<not> overMemory \<and> exitStatus \<noteq> 0 \<and> syntaxError \<longrightarrow>
             field r ''verdict'' = Some (JStr ''COMPILATION_ERROR'')) \<and>
          (\<not> killedOrLate \<and> \<not> overMemory \<and> exitStatus \<noteq> 0 \<and> \<not> syntaxError \<longrightarrow>
             field r ''verdict'' = Some (JStr ''RUNTIME_ERROR'')) \<and>
          (\<not> killedOrLate \<and> \<not> overMemory \<and> exitStatus = 0 \<longrightarrow>
             field r ''verdict'' = Some (JStr ''ACCEPTED'') \<and>
             field r ''score'' = Some (JNum 100)))"
proof -
  have r: "fst (processSubmission w d job config) =
     classified_result job exitStatus (endTime w - startTime w)
       (case usage of None \<Rightarrow> 0 | Some u \<Rightarrow> u) (capture (chunks w))"
    using assms by (intro processSubmission_ok) simp_all
  show ?thesis
    unfolding r Let_def
    by (simp add: classified_result_fields classify_def)
qed

theorem classification_priority_witness:
  "LANGUAGE_CONFIG_get (language job0) =
     Own \<lparr>image = ''codecontest/python-runner:latest'', command = [''python3'', ''main.py''],
          fileName = ''main.py''\<rparr> \<and>
   wait_res syntax_error_run = Inr 1 \<and>
   stats_res syntax_error_run = Inr (Some 8000000) \<and>
   field (fst (processSubmission syntax_error_run docker0 job0 config0)) ''verdict'' =
     Some (JStr ''COMPILATION_ERROR'')"
proof -
  have w: "createContainer_res syntax_error_run = None" "putArchive_res syntax_error_run = None"
    "start_res syntax_error_run = None" "logs_res syntax_error_run = None"
    "wait_res syntax_error_run = Inr 1" "stats_res syntax_error_run = Inr (Some 8000000)"
    "remove_res syntax_error_run = None"
    by (simp_all add: syntax_error_run_def accepted_run_def)
  have e: "snd (capture (chunks syntax_error_run)) = ''SyntaxError: invalid syntax''"
    by (simp add: syntax_error_run_def accepted_run_def capture_def)
  have t: "endTime syntax_error_run - startTime syntax_error_run = 150"
    by (simp add: syntax_error_run_def accepted_run_def)
  have j: "timeLimit job0 = 2000" "memoryLimit job0 = 256"
    by (simp_all add: job0_def)
  from classification_priority[OF job0_language w, of docker0 config0]
  have "field (fst (processSubmission syntax_error_run docker0 job0 config0)) ''verdict'' =
     Some (JStr ''COMPILATION_ERROR'')"
    unfolding Let_def e t j by simp
  with job0_language w show ?thesis by simp
qed

subsection \<open>The memory ceiling of the sandbox\<close>

text \<open>
  Claim C3, as the specification states it: the hard memory ceiling configured on the
  container equals \<open>memoryLimit job\<close>. It does not. For the job of the first scenario
  under the default configuration, the one container created has the ceiling
  536870912, the worker's \<open>maxMemory\<close>, while the job declares 256 megabytes, which is
  268435456 bytes.
\<close>

theorem memory_ceiling_counterexample:
  "map (Memory \<circ> HostConfig)
     (created_options (effects (snd (processSubmission accepted_run docker0 job0 config0))))
     = [536870912] \<and>
   memoryLimit job0 = 256 \<and> memoryLimit job0 * 1024 * 1024 = 268435456"
  using processSubmission_created[of job0 accepted_run docker0 config0] job0_language
  by (simp add: container_options_def docker0_def config0_def job0_def)

text \<open>
  Claim C3, amended. For every job with a supported language, \<^verbatim>\<open>processSubmission\<close>
  creates exactly one container, and its hard memory ceiling (\<^verbatim>\<open>Memory\<close> and
  \<^verbatim>\<open>MemorySwap\<close>) is the worker-wide \<open>maxMemory config\<close>. The options of the container
  do not depend on the memory limit the job declares: a job that differs only in
  \<open>memoryLimit\<close> is given a container with the same options.
\<close>

theorem memory_ceiling_is_worker_wide:
  assumes "LANGUAGE_CONFIG_get (language job) = Own lc"
  shows "\<exists>opts.
          created_options (effects (snd (processSubmission w d job config))) =
            created_options (effects d) @ [opts] \<and>
          Memory (HostConfig opts) = maxMemory config \<and>
          MemorySwap (HostConfig opts) = maxMemory config \<and>
          created_options
            (effects (snd (processSubmission w d (job\<lparr>memoryLimit := m\<rparr>) config))) =
            created_options (effects d) @ [opts]"
  using assms processSubmission_created[of job w d config]
    processSubmission_created[of "job\<lparr>memoryLimit := m\<rparr>" w d config]
  by (simp add: container_options_def)

theorem memory_ceiling_is_worker_wide_witness:
  "LANGUAGE_CONFIG_get (language job0) =
     Own \<lparr>image = ''codecontest/python-runner:latest'', command = [''python3'', ''main.py''],
          fileName = ''main.py''\<rparr> \<and>
   map (Memory \<circ> HostConfig)
     (created_options (effects (snd (processSubmission accepted_run docker0 job0 config0))))
     = [maxMemory config0]"
  using memory_ceiling_is_worker_wide[OF job0_language, of accepted_run docker0 config0 0]
    job0_language
  by (auto simp: docker0_def)

subsection \<open>Removal of the container\<close>

text \<open>
  Claim C4, as the specification states it: no container created for the job remains
  after \<^verbatim>\<open>processSubmission\<close> returns, on every return path. It can remain. When the
  connection to the daemon is lost while the container runs, \<^verbatim>\<open>container.wait()\<close>
  throws, the removal in the \<^verbatim>\<open>catch\<close> block throws as well, that second failure is
  swallowed, and the call returns \<^verbatim>\<open>SYSTEM_ERROR\<close> with the container still there.
\<close>

theorem container_remains_counterexample:
  "createContainer_res lost_daemon_run = None \<and>
   ''submission-42'' \<notin> containers docker0 \<and>
   ''submission-42'' \<in> containers (snd (processSubmission lost_daemon_run docker0 job0 config0)) \<and>
   field (fst (processSubmission lost_daemon_run docker0 job0 config0)) ''verdict'' =
     Some (JStr ''SYSTEM_ERROR'')"
proof -
  have l: "LANGUAGE_CONFIG_get (language job0) \<noteq> Undefined"
    using job0_language by simp
  have c: "createContainer_res lost_daemon_run = None"
    by (simp add: lost_daemon_run_def accepted_run_def)
  have n: "\<not> try_completes lost_daemon_run" "cleanup_remove_res lost_daemon_run \<noteq> None"
    by (simp_all add: lost_daemon_run_def accepted_run_def try_completes_def)
  have "''submission-'' @ submissionId job0 \<in>
          containers (snd (processSubmission lost_daemon_run docker0 job0 config0))"
    using processSubmission_removal(2)[OF l c, of docker0 config0] n by simp
  moreover have "field (fst (processSubmission lost_daemon_run docker0 job0 config0)) ''verdict'' =
     Some (JStr ''SYSTEM_ERROR'')"
  proof -
    obtain e where "fst (try_block lost_daemon_run (LANGUAGE_CONFIG_get (language job0)) job0
        config0 docker0) = Inl e"
      using try_block_throws[OF c n(1)] by blast
    from processSubmission_thrown[OF l this] show ?thesis
      by (simp add: catch_block_fields)
  qed
  ultimately show ?thesis
    using c by (simp add: job0_def docker0_def)
qed

text \<open>
  Claim C4, amended. For every job for which \<^verbatim>\<open>processSubmission\<close> creates a container,
  a forced removal of that container is requested before \<^verbatim>\<open>processSubmission\<close> returns,
  on the normal path and on the exception path. After the call the container is gone,
  except when a call after the creation threw and the removal in the \<^verbatim>\<open>catch\<close> block
  threw as well: then, and only then, the container remains.
\<close>

theorem container_removed_unless_removal_fails:
  assumes "LANGUAGE_CONFIG_get (language job) \<noteq> Undefined"
    and "createContainer_res w = None"
  shows "Remove (''submission-'' @ submissionId job)
           \<in> set (drop (length (effects d)) (effects (snd (processSubmission w d job config)))) \<and>
         ((''submission-'' @ submissionId job
             \<in> containers (snd (processSubmission w d job config)))
          = (\<not> try_completes w \<and> cleanup_remove_res w \<noteq> None))"
  using processSubmission_removal[OF assms] by simp

theorem container_removed_unless_removal_fails_witness:
  "LANGUAGE_CONFIG_get (language job0) \<noteq> Undefined \<and>
   createContainer_res accepted_run = None \<and>
   ''submission-42'' \<notin> containers (snd (processSubmission accepted_run docker0 job0 config0))"
proof -
  have l: "LANGUAGE_CONFIG_get (language job0) \<noteq> Undefined"
    using job0_language by simp
  have c: "createContainer_res accepted_run = None"
    by (simp add: accepted_run_def)
  have "try_completes accepted_run"
    by (simp add: accepted_run_def try_completes_def)
  with container_removed_unless_removal_fails[OF l c, of docker0 config0]
  have "''submission-'' @ submissionId job0
          \<notin> containers (snd (processSubmission accepted_run docker0 job0 config0))"
    by simp
  with l c show ?thesis by (simp add: job0_def)
qed

subsection \<open>Unsupported languages\<close>

text \<open>
  Claim C8 says that a job whose language has no entry in the language configuration
  gets \<^verbatim>\<open>SYSTEM_ERROR\<close> without any call on the container runtime. The code reads
  \<^verbatim>\<open>LANGUAGE_CONFIG[job.language]\<close> and tests the value for truthiness. The language
  \<^verbatim>\<open>constructor\<close> has no entry among the six, yet the read yields the inherited
  \<^verbatim>\<open>Object.prototype.constructor\<close>, the guard does not fire, and \<^verbatim>\<open>createContainer\<close> is
  called with an undefined image and command.
\<close>

theorem inherited_key_reaches_runtime:
  "map_of LANGUAGE_CONFIG ''constructor'' = None \<and>
   map Image (created_options
     (effects (snd (processSubmission w docker0 (job\<lparr>language := ''constructor''\<rparr>) config))))
     = [None]"
proof -
  have l: "LANGUAGE_CONFIG_get (language (job\<lparr>language := ''constructor''\<rparr>)) = Inherited"
    by (simp add: LANGUAGE_CONFIG_get_def LANGUAGE_CONFIG_def Object_prototype_keys_def)
  then have "LANGUAGE_CONFIG_get (language (job\<lparr>language := ''constructor''\<rparr>)) \<noteq> Undefined"
    by simp
  from processSubmission_created[OF this, of w docker0 config] l
  show ?thesis
    by (simp add: container_options_def docker0_def LANGUAGE_CONFIG_def)
qed

subsection \<open>The closed set of verdicts\<close>

text \<open>
  Claim C10. For every job and every behaviour of the runtime, the verdict of the
  result of \<^verbatim>\<open>processSubmission\<close> is one of \<^verbatim>\<open>SYSTEM_ERROR\<close>, \<^verbatim>\<open>TIME_LIMIT_EXCEEDED\<close>,
  \<^verbatim>\<open>MEMORY_LIMIT_EXCEEDED\<close>, \<^verbatim>\<open>COMPILATION_ERROR\<close>, \<^verbatim>\<open>RUNTIME_ERROR\<close> and \<^verbatim>\<open>ACCEPTED\<close>;
  it is never \<^verbatim>\<open>WRONG_ANSWER\<close>; and the result reports one test case passed out of one
  exactly when the verdict is \<^verbatim>\<open>ACCEPTED\<close>.
\<close>

theorem verdict_closed:
  "field (fst (processSubmission w d job config)) ''verdict''
     \<in> {Some (JStr ''SYSTEM_ERROR''), Some (JStr ''TIME_LIMIT_EXCEEDED''),
        Some (JStr ''MEMORY_LIMIT_EXCEEDED''), Some (JStr ''COMPILATION_ERROR''),
        Some (JStr ''RUNTIME_ERROR''), Some (JStr ''ACCEPTED'')} \<and>
   field (fst (processSubmission w d job config)) ''verdict'' \<noteq> Some (JStr ''WRONG_ANSWER'') \<and>
   ((field (fst (processSubmission w d job config)) ''testCasesPassed'' = Some (JNum 1) \<and>
     field (fst (processSubmission w d job config)) ''totalTestCases'' = Some (JNum 1))
    = (field (fst (processSubmission w d job config)) ''verdict'' = Some (JStr ''ACCEPTED'')))"
  using verdict_ok_processSubmission[of w d job config] unfolding verdict_ok_def .

subsection \<open>Signing and verifying\<close>

lemma strict_crypto_matching: "matching_keypair strict_crypto ''SHA256'' k k"
  by (simp add: matching_keypair_def strict_crypto_def)

lemma strict_crypto_faithful: "faithful_encoding strict_crypto ''base64''"
  by (simp add: faithful_encoding_def strict_crypto_def)

text \<open>
  What \<^verbatim>\<open>sign\<close> and \<^verbatim>\<open>verify\<close> of a signer ask of the library: the hash
  \<^verbatim>\<open>SHA256\<close> over exactly the data given, with the signature written and read in
  \<^verbatim>\<open>base64\<close>.
\<close>

lemma createSigner_sign:
  "sign (createSigner lib sk) payload =
     (case pk_sign lib ''SHA256'' sk payload of
        Inl e \<Rightarrow> Inl e
      | Inr raw \<Rightarrow> Inr (encode lib ''base64'' raw))"
  by (simp add: createSigner_def Sign_sign_def stream_update_def createSign_def)

lemma createSigner_verify:
  "verify (createSigner lib sk) payload signature pk =
     pk_verify lib ''SHA256'' pk payload (decode lib ''base64'' signature)"
  by (simp add: createSigner_def Verify_verify_def stream_update_def createVerify_def)

text \<open>
  Claim C7. For every payload and every key pair that matches under \<^verbatim>\<open>SHA256\<close>,
  signing the payload succeeds and verifying that signature over the same payload under
  the public key yields true. The \<^verbatim>\<open>crypto\<close> module is a parameter, of which only this
  is assumed: the key pair matches under \<^verbatim>\<open>SHA256\<close> and \<^verbatim>\<open>base64\<close> is faithful. Signer
  and verifier use the same hash and encoding of the same bytes: the signature is the
  library's \<^verbatim>\<open>SHA256\<close> signature of the payload written in \<^verbatim>\<open>base64\<close>, and verifying any
  signature under any key is the library's \<^verbatim>\<open>SHA256\<close> check of that payload against
  the \<^verbatim>\<open>base64\<close> reading of the signature, so that what the library rejects is
  rejected.
\<close>

theorem sign_then_verify:
  assumes "matching_keypair lib ''SHA256'' sk pk" and "faithful_encoding lib ''base64''"
  shows "(\<exists>signature. sign (createSigner lib sk) payload = Inr signature \<and>
            verify (createSigner lib sk) payload signature pk = Inr True) \<and>
         sign (createSigner lib sk) payload =
           (case pk_sign lib ''SHA256'' sk payload of
              Inl e \<Rightarrow> Inl e
            | Inr raw \<Rightarrow> Inr (encode lib ''base64'' raw)) \<and>
         (\<forall>signature key. verify (createSigner lib sk) payload signature key =
            pk_verify lib ''SHA256'' key payload (decode lib ''base64'' signature))"
proof -
  from assms(1) obtain raw
    where s: "pk_sign lib ''SHA256'' sk payload = Inr raw"
      and v: "pk_verify lib ''SHA256'' pk payload raw = Inr True"
    unfolding matching_keypair_def by blast
  from assms(2) have d: "decode lib ''base64'' (encode lib ''base64'' raw) = raw"
    unfolding faithful_encoding_def by blast
  have "sign (createSigner lib sk) payload = Inr (encode lib ''base64'' raw)"
    using s by (simp add: createSigner_sign)
  moreover have "verify (createSigner lib sk) payload (encode lib ''base64'' raw) pk = Inr True"
    using v d by (simp add: createSigner_verify)
  ultimately have "\<exists>signature. sign (createSigner lib sk) payload = Inr signature \<and>
            verify (createSigner lib sk) payload signature pk = Inr True"
    by blast
  then show ?thesis
    by (simp add: createSigner_sign createSigner_verify)
qed

theorem sign_then_verify_witness:
  "matching_keypair strict_crypto ''SHA256'' ''k'' ''k'' \<and>
   faithful_encoding strict_crypto ''base64'' \<and>
   (\<exists>signature. sign (createSigner strict_crypto ''k'') ''job-request'' = Inr signature \<and>
      verify (createSigner strict_crypto ''k'') ''job-request'' signature ''k'' = Inr True) \<and>
   sign (createSigner strict_crypto ''k'') ''job-request'' =
     Inr (rev ''SHA256:k:job-request'') \<and>
   verify (createSigner strict_crypto ''k'') ''job-request'' ''SHA256:k:job-request'' ''k'' =
     Inr False"
proof -
  note t = sign_then_verify[OF strict_crypto_matching strict_crypto_faithful,
      of "''k''" "''job-request''"]
  from t have "\<exists>signature. sign (createSigner strict_crypto ''k'') ''job-request'' = Inr signature \<and>
      verify (createSigner strict_crypto ''k'') ''job-request'' signature ''k'' = Inr True"
    by blast
  moreover from t have "sign (createSigner strict_crypto ''k'') ''job-request'' =
     Inr (rev ''SHA256:k:job-request'')"
    by (simp add: strict_crypto_def)
  moreover from t have "verify (createSigner strict_crypto ''k'') ''job-request''
      ''SHA256:k:job-request'' ''k'' = Inr False"
    by (simp add: strict_crypto_def)
  ultimately show ?thesis
    using strict_crypto_matching[of "''k''"] strict_crypto_faithful by simp
qed

subsection \<open>Signed results\<close>

text \<open>
  When signing and posting succeed, \<^verbatim>\<open>processJob\<close> sends one request, and its body is
  the result of \<^verbatim>\<open>processSubmission\<close> followed by the runner's identifier and the
  signature of the serialised result.
\<close>

lemma processJob_signed:
  assumes "sign (createSigner lib (privateKey config)) (stringify
             (fst (processSubmission (sandbox jr) (runtime ws) job config))) = Inr sg"
    and "result_post_res jr = None"
  shows "requests (snd (processJob lib stringify jr job config ws)) =
     requests ws @
       [\<lparr>url = apiUrl config @ ''/api/runner/result'', http_method = ''POST'',
         headers = [(''Content-Type'', ''application/json''), (''X-Runner-ID'', runnerId config),
                    (''X-Runner-Signature'', sg)],
         body = Some (fst (processSubmission (sandbox jr) (runtime ws) job config) @
                      [(''runnerId'', JStr (runnerId config)), (''signature'', JStr sg)])\<rparr>]"
  using assms
  by (simp add: processJob_def case_prod_beta Let_def sent_def logged_def)

text \<open>
  When the request that carries the signed result throws, the \<^verbatim>\<open>catch\<close> block sends a
  second request, and that one is unsigned.
\<close>

lemma processJob_post_throws:
  assumes "sign (createSigner lib (privateKey config)) (stringify
             (fst (processSubmission (sandbox jr) (runtime ws) job config))) = Inr sg"
    and "result_post_res jr = Some err"
  shows "drop (Suc (length (requests ws))) (requests (snd (processJob lib stringify jr job config ws))) =
       [\<lparr>url = apiUrl config @ ''/api/runner/result'', http_method = ''POST'',
         headers = [(''Content-Type'', ''application/json''), (''X-Runner-ID'', runnerId config)],
         body = Some [(''submissionId'', JStr (submissionId job)),
                      (''verdict'', JStr ''SYSTEM_ERROR''),
                      (''error'', JStr (error_message err))]\<rparr>]"
  using assms
  by (simp add: processJob_def processJob_catch_def case_prod_beta Let_def sent_def logged_def)

lemma unusable_key_sign:
  "sign (createSigner unusable_key_crypto key) payload =
     Inl (Error ''error:1E08010C:DECODER routines::unsupported'')"
  by (simp add: createSigner_def Sign_sign_def unusable_key_crypto_def)

text \<open>
  Claim C1 says that on every outcome, also when signing throws, the result that is
  posted carries a signature. The code signs in the \<^verbatim>\<open>try\<close> block only. With a
  private key that the library cannot use, \<^verbatim>\<open>signer.sign\<close> throws, and the one request
  \<^verbatim>\<open>processJob\<close> sends is the one of its \<^verbatim>\<open>catch\<close> block: no \<^verbatim>\<open>X-Runner-Signature\<close>
  header, and a body of three keys without \<^verbatim>\<open>signature\<close> or \<^verbatim>\<open>runnerId\<close>.
\<close>

theorem unsigned_result_is_posted:
  "requests (snd (processJob unusable_key_crypto stringify jr job config worker0)) =
     [\<lparr>url = apiUrl config @ ''/api/runner/result'', http_method = ''POST'',
       headers = [(''Content-Type'', ''application/json''), (''X-Runner-ID'', runnerId config)],
       body = Some [(''submissionId'', JStr (submissionId job)),
                    (''verdict'', JStr ''SYSTEM_ERROR''),
                    (''error'', JStr ''error:1E08010C:DECODER routines::unsupported'')]\<rparr>]"
  by (simp add: processJob_def case_prod_beta Let_def unusable_key_sign processJob_catch_def
      sent_def logged_def worker0_def)

subsection \<open>The bookkeeping of active sandboxes\<close>

text \<open>Neither \<^verbatim>\<open>pollQueue\<close> nor \<^verbatim>\<open>processJob\<close> changes \<^verbatim>\<open>activeContainers\<close>.\<close>

lemma pollQueue_activeContainers:
  "activeContainers (pollQueue lib fetch_res config ws) = activeContainers ws"
  by (simp add: pollQueue_def Let_def sent_def logged_def split: sum.splits)

lemma processJob_activeContainers:
  "activeContainers (snd (processJob lib stringify jr job config ws)) = activeContainers ws"
  by (simp add: processJob_def processJob_catch_def case_prod_beta Let_def sent_def logged_def
      split: sum.splits option.splits)

lemma transparent_sign:
  "sign (createSigner transparent_crypto key) payload = Inr (''SHA256:'' @ key @ '':'' @ payload)"
  by (simp add: createSigner_def Sign_sign_def transparent_crypto_def stream_update_def
      createSign_def)

lemma pollQueue_job:
  assumes "sign (createSigner lib (privateKey config)) ''job-request'' = Inr sg"
    and "fetch_res = Inr response" "ok response" "json_body response = Inr job"
  shows "pollQueue lib fetch_res config ws =
     (let ws1 = sent \<lparr>url = apiUrl config @ ''/api/runner/job'', http_method = ''GET'',
                       headers = [(''X-Runner-ID'', runnerId config), (''X-Runner-Signature'', sg)],
                       body = None\<rparr> ws in
      if int (length (activeContainers ws)) < concurrency config
      then ws1\<lparr>started := started ws @ [job]\<rparr>
      else logged (LogWarn ''Max concurrency reached, skipping job'') ws1)"
  using assms by (simp add: pollQueue_def Let_def sent_def logged_def)

lemma job_response_ok:
  "ok \<lparr>status = 200, json_body = Inr job\<rparr>"
  by (simp add: ok_def)

text \<open>
  Claim C5 says that an entry is added to \<^verbatim>\<open>activeContainers\<close> when a sandbox is
  provisioned, so that its size is the number of sandboxes in flight. No code adds an
  entry. On a worker with a concurrency of 1, two polls that each return a job start
  both jobs, and after the first job has run, with its container created, the map is
  still empty.
\<close>

theorem activeContainers_never_filled:
  "started (pollQueue transparent_crypto (job_response (job0\<lparr>submissionId := ''43''\<rparr>))
      (config0\<lparr>concurrency := 1\<rparr>)
      (pollQueue transparent_crypto (job_response job0) (config0\<lparr>concurrency := 1\<rparr>) worker0))
     = [job0, job0\<lparr>submissionId := ''43''\<rparr>] \<and>
   activeContainers (pollQueue transparent_crypto (job_response (job0\<lparr>submissionId := ''43''\<rparr>))
      (config0\<lparr>concurrency := 1\<rparr>)
      (pollQueue transparent_crypto (job_response job0) (config0\<lparr>concurrency := 1\<rparr>) worker0))
     = [] \<and>
   activeContainers (snd (processJob transparent_crypto stringify delivered job0
      (config0\<lparr>concurrency := 1\<rparr>) worker0)) = [] \<and>
   length (created_options (effects (runtime (snd (processJob transparent_crypto stringify
      delivered job0 (config0\<lparr>concurrency := 1\<rparr>) worker0))))) = 1"
proof -
  let ?cfg = "config0\<lparr>concurrency := 1\<rparr>"
  have p: "pollQueue transparent_crypto (job_response j) ?cfg ws =
     (let ws1 = sent \<lparr>url = apiUrl ?cfg @ ''/api/runner/job'', http_method = ''GET'',
                       headers = [(''X-Runner-ID'', runnerId ?cfg),
                                  (''X-Runner-Signature'',
                                   ''SHA256:'' @ privateKey ?cfg @ '':'' @ ''job-request'')],
                       body = None\<rparr> ws in
      if int (length (activeContainers ws)) < concurrency ?cfg
      then ws1\<lparr>started := started ws @ [j]\<rparr>
      else logged (LogWarn ''Max concurrency reached, skipping job'') ws1)" for j ws
    by (rule pollQueue_job[OF transparent_sign _ job_response_ok])
       (simp_all add: job_response_def)
  have a: "started (pollQueue transparent_crypto (job_response (job0\<lparr>submissionId := ''43''\<rparr>))
      ?cfg (pollQueue transparent_crypto (job_response job0) ?cfg worker0))
     = [job0, job0\<lparr>submissionId := ''43''\<rparr>]"
    by (simp add: p Let_def sent_def worker0_def)
  have b: "runtime (snd (processJob lib stringify jr job config ws)) =
      snd (processSubmission (sandbox jr) (runtime ws) job config)" for lib jr job config ws
    by (simp add: processJob_def processJob_catch_def case_prod_beta Let_def sent_def logged_def
        split: sum.splits option.splits)
  have l: "LANGUAGE_CONFIG_get (language job0) \<noteq> Undefined"
    using job0_language by simp
  have c: "length (created_options (effects (runtime (snd (processJob transparent_crypto stringify
      delivered job0 ?cfg worker0))))) = 1"
    unfolding b using processSubmission_created[OF l, of "sandbox delivered" "runtime worker0" ?cfg]
    by (simp add: worker0_def docker0_def)
  show ?thesis
    using a c by (simp add: pollQueue_activeContainers processJob_activeContainers worker0_def)
qed

subsection \<open>Polling\<close>

text \<open>
  Claim C6, as the specification states it: capacity is checked before a job is pulled,
  and a job that was dequeued is always handed to the coordinator. On a worker
  configured with a concurrency of 0 the request to the queue is sent all the same, the
  job in the answer is not started, and a warning is logged.
\<close>

theorem dequeued_job_dropped_counterexample:
  "map url (requests (pollQueue transparent_crypto (job_response job0)
      (config0\<lparr>concurrency := 0\<rparr>) worker0)) = [''http://localhost:3000/api/runner/job''] \<and>
   started (pollQueue transparent_crypto (job_response job0)
      (config0\<lparr>concurrency := 0\<rparr>) worker0) = [] \<and>
   log (pollQueue transparent_crypto (job_response job0)
      (config0\<lparr>concurrency := 0\<rparr>) worker0) = [LogWarn ''Max concurrency reached, skipping job'']"
proof -
  have "pollQueue transparent_crypto (job_response job0) (config0\<lparr>concurrency := 0\<rparr>) worker0 =
     (let ws1 = sent \<lparr>url = apiUrl (config0\<lparr>concurrency := 0\<rparr>) @ ''/api/runner/job'',
                       http_method = ''GET'',
                       headers = [(''X-Runner-ID'', runnerId (config0\<lparr>concurrency := 0\<rparr>)),
                                  (''X-Runner-Signature'',
                                   ''SHA256:'' @ privateKey (config0\<lparr>concurrency := 0\<rparr>) @ '':'' @
                                   ''job-request'')],
                       body = None\<rparr> worker0 in
      if int (length (activeContainers worker0)) < concurrency (config0\<lparr>concurrency := 0\<rparr>)
      then ws1\<lparr>started := started worker0 @ [job0]\<rparr>
      else logged (LogWarn ''Max concurrency reached, skipping job'') ws1)"
    by (rule pollQueue_job[OF transparent_sign _ job_response_ok])
       (simp_all add: job_response_def)
  then show ?thesis
    by (simp add: Let_def sent_def logged_def worker0_def config0_def)
qed

text \<open>
  Claim C6, amended. On a poll tick whose request can be signed, the request to the
  queue is sent first, whatever the number of active containers. When the queue
  answers with a job, the number of entries of \<^verbatim>\<open>activeContainers\<close> is then compared
  with the concurrency: below it the job is handed to \<^verbatim>\<open>processJob\<close>; otherwise the job
  is not started and the warning \<^verbatim>\<open>Max concurrency reached, skipping job\<close> is logged.
\<close>

theorem pollQueue_pulls_then_checks:
  assumes "sign (createSigner lib (privateKey config)) ''job-request'' = Inr sg"
    and "fetch_res = Inr response" "ok response" "json_body response = Inr job"
  shows "requests (pollQueue lib fetch_res config ws) =
           requests ws @
             [\<lparr>url = apiUrl config @ ''/api/runner/job'', http_method = ''GET'',
               headers = [(''X-Runner-ID'', runnerId config), (''X-Runner-Signature'', sg)],
               body = None\<rparr>] \<and>
         started (pollQueue lib fetch_res config ws) =
           (if int (length (activeContainers ws)) < concurrency config
            then started ws @ [job] else started ws) \<and>
         log (pollQueue lib fetch_res config ws) =
           (if int (length (activeContainers ws)) < concurrency config
            then log ws else log ws @ [LogWarn ''Max concurrency reached, skipping job''])"
  unfolding pollQueue_job[OF assms] by (simp add: Let_def sent_def logged_def)

theorem pollQueue_pulls_then_checks_witness:
  "sign (createSigner transparent_crypto (privateKey config0)) ''job-request'' =
     Inr ''SHA256:sk:job-request'' \<and>
   ok \<lparr>status = 200, json_body = Inr job0\<rparr> \<and>
   started (pollQueue transparent_crypto (job_response job0) config0 worker0) = [job0] \<and>
   log (pollQueue transparent_crypto (job_response job0) config0 worker0) = []"
proof -
  have s: "sign (createSigner transparent_crypto (privateKey config0)) ''job-request'' =
     Inr ''SHA256:sk:job-request''"
    by (simp add: transparent_sign config0_def)
  have r: "job_response job0 = Inr \<lparr>status = 200, json_body = Inr job0\<rparr>"
    by (simp add: job_response_def)
  have j: "json_body \<lparr>status = 200, json_body = Inr job0\<rparr> = Inr job0"
    by simp
  from pollQueue_pulls_then_checks[OF s r job_response_ok j, of worker0]
  have "started (pollQueue transparent_crypto (job_response job0) config0 worker0) = [job0] \<and>
        log (pollQueue transparent_crypto (job_response job0) config0 worker0) = []"
    by (simp add: worker0_def config0_def)
  with s job_response_ok show ?thesis by simp
qed

subsection \<open>Registration and heartbeat\<close>













end
